theory Spec2Isabelle
  imports Complex_Main "HOL-Library.Char_ord" "HOL-Library.List_Lexorder" "HOL-Library.Multiset"
begin

section \<open>Python values and builtins\<close>

text \<open>
  A string is the list of the bytes of its UTF-8 encoding: equality, concatenation,
  the search for the dot of a filename and the order of two strings (by code points)
  are those of the byte lists.
\<close>

text \<open>
  A JSON number with a fraction or an exponent is a float: a finite value, the negative
  zero, an infinity or a NaN (\<^verbatim>\<open>json.loads\<close> reads \<^verbatim>\<open>NaN\<close> and \<^verbatim>\<open>Infinity\<close>). The finite
  values are taken from the rationals, which hold every double.
\<close>

datatype pyfloat = Finite rat | NegZero | PosInf | NegInf | NaN

text \<open>
  The JSON scalars that reach the comparisons and conversions of \<^verbatim>\<open>app.py\<close>:
  \<^verbatim>\<open>None\<close>, a boolean, an integer, a float or a string. JSON arrays and objects are
  not part of the model (\<^verbatim>\<open>int\<close> raises on both).
\<close>

datatype pyval = PNone | PBool bool | PInt int | PFloat pyfloat | PStr string

text \<open>Truthiness, as \<^verbatim>\<open>if collection_id:\<close> tests it.\<close>

fun truthy :: "pyval \<Rightarrow> bool" where
  "truthy PNone = False"
| "truthy (PBool b) = b"
| "truthy (PInt n) = (n \<noteq> 0)"
| "truthy (PFloat (Finite q)) = (q \<noteq> 0)"
| "truthy (PFloat NegZero) = False"
| "truthy (PFloat PosInf) = True"
| "truthy (PFloat NegInf) = True"
| "truthy (PFloat NaN) = True"
| "truthy (PStr s) = (s \<noteq> [])"

text \<open>
  Python's \<^verbatim>\<open>==\<close>: booleans, integers and floats are compared by their numeric value
  (\<^verbatim>\<open>True == 1\<close>, \<^verbatim>\<open>3 == 3.0\<close>), a NaN equals nothing, and a number, a string and
  \<^verbatim>\<open>None\<close> are never equal to one another.
\<close>

fun numeric :: "pyval \<Rightarrow> pyfloat option" where
  "numeric PNone = None"
| "numeric (PBool b) = Some (Finite (if b then 1 else 0))"
| "numeric (PInt n) = Some (Finite (of_int n))"
| "numeric (PFloat NegZero) = Some (Finite 0)"
| "numeric (PFloat x) = Some x"
| "numeric (PStr s) = None"

definition py_eq :: "pyval \<Rightarrow> pyval \<Rightarrow> bool" where
  "py_eq a b =
     (case (numeric a, numeric b) of
        (Some x, Some y) \<Rightarrow> x \<noteq> NaN \<and> x = y
      | (None, None) \<Rightarrow> a = b
      | _ \<Rightarrow> False)"

text \<open>\<^verbatim>\<open>str(n)\<close> for an integer: decimal digits, with a minus sign when negative.\<close>

definition digit_char :: "nat \<Rightarrow> char" where
  "digit_char d = char_of (48 + d)"

fun str_nat :: "nat \<Rightarrow> string" where
  "str_nat n = (if n < 10 then [digit_char n] else str_nat (n div 10) @ [digit_char (n mod 10)])"

declare str_nat.simps [simp del]

definition str_int :: "int \<Rightarrow> string" where
  "str_int i = (if i < 0 then CHR ''-'' # str_nat (nat (- i)) else str_nat (nat i))"

text \<open>
  The builtins of the interpreter whose result depends on Unicode tables are parameters
  of the model: \<^verbatim>\<open>str.lower()\<close>, \<^verbatim>\<open>str.strip()\<close>, \<^verbatim>\<open>int(s)\<close> for a string (\<open>None\<close>
  is the \<^verbatim>\<open>ValueError\<close>) and \<^verbatim>\<open>str(x)\<close> for a float. Every theorem holds for whatever
  these functions are.
\<close>

record python =
  str_lower :: "string \<Rightarrow> string"
  str_strip :: "string \<Rightarrow> string"
  int_str :: "string \<Rightarrow> int option"
  str_float :: "pyfloat \<Rightarrow> string"

fun py_str :: "python \<Rightarrow> pyval \<Rightarrow> string" where
  "py_str py PNone = ''None''"
| "py_str py (PBool b) = (if b then ''True'' else ''False'')"
| "py_str py (PInt n) = str_int n"
| "py_str py (PFloat x) = str_float py x"
| "py_str py (PStr s) = s"

text \<open>
  \<^verbatim>\<open>int(v)\<close>: a boolean is 0 or 1, a finite float is truncated towards zero, and \<open>None\<close>
  is the exception (\<^verbatim>\<open>TypeError\<close> on \<^verbatim>\<open>None\<close>, \<^verbatim>\<open>OverflowError\<close> on an infinity,
  \<^verbatim>\<open>ValueError\<close> on a NaN or on a string that is no integer literal).
\<close>

fun py_int :: "python \<Rightarrow> pyval \<Rightarrow> int option" where
  "py_int py PNone = None"
| "py_int py (PBool b) = Some (if b then 1 else 0)"
| "py_int py (PInt n) = Some n"
| "py_int py (PFloat (Finite q)) = Some (if 0 \<le> q then \<lfloor>q\<rfloor> else \<lceil>q\<rceil>)"
| "py_int py (PFloat NegZero) = Some 0"
| "py_int py (PFloat PosInf) = None"
| "py_int py (PFloat NegInf) = None"
| "py_int py (PFloat NaN) = None"
| "py_int py (PStr s) = int_str py s"

section \<open>Data model\<close>

text \<open>
  A photo and a collection are the dicts that \<^verbatim>\<open>upload_photo\<close>,
  \<^verbatim>\<open>load_photos_from_cloudinary\<close> and \<^verbatim>\<open>create_collection\<close> build. The key
  \<^verbatim>\<open>cloudinary_public_id\<close> may be missing (the code tests \<^verbatim>\<open>in photo\<close>); a missing
  \<^verbatim>\<open>collection_id\<close> reads as \<^verbatim>\<open>None\<close> through \<^verbatim>\<open>.get\<close>, and the locally cached value
  may be any JSON scalar.
\<close>

record photo =
  p_id :: int
  filename :: string
  title :: string
  description :: string
  collection_id :: pyval
  cloudinary_url :: string
  cloudinary_public_id :: "string option"
  image_url :: string
  upload_date :: string
  storage_type :: string

record collection =
  c_id :: int
  c_name :: string
  created_date :: string

text \<open>A remote asset as \<^verbatim>\<open>cloudinary.api.resources\<close> lists it; the context is a flat dict.\<close>

record resource =
  public_id :: string
  secure_url :: string
  created_at :: "string option"
  context_r :: "(string \<times> string) list"

text \<open>
  A local cache file is absent, unreadable (\<^verbatim>\<open>open\<close> or \<^verbatim>\<open>json.load\<close> raises) or holds
  an entity list.
\<close>

datatype 'a cache_file = Absent | Unreadable | Content 'a

text \<open>
  The two stores: the module flag \<^verbatim>\<open>cloudinary_configured\<close>, the assets under the
  gallery prefix in the order the service lists them, the raw document
  \<^verbatim>\<open>collections_metadata\<close> (\<open>None\<close> when it does not exist), and the two local files
  \<^verbatim>\<open>LOCAL_METADATA_FILE\<close> and \<^verbatim>\<open>LOCAL_COLLECTIONS_FILE\<close>.
\<close>

record world =
  cloudinary_configured :: bool
  assets :: "resource list"
  collections_metadata :: "collection list option"
  local_metadata_file :: "photo list cache_file"
  local_collections_file :: "collection list cache_file"

text \<open>
  The outcome of the external calls of one load: whether the remote query returns
  (otherwise it raises) and whether the write of the cache file succeeds (a failed
  \<^verbatim>\<open>open\<close> leaves the file as it was).
\<close>

record load_env =
  query_ok :: bool
  cache_ok :: bool

section \<open>Metadata reconciler\<close>

definition ctx_get :: "(string \<times> string) list \<Rightarrow> string \<Rightarrow> string \<Rightarrow> string" where
  "ctx_get ctx k d = (case map_of ctx k of None \<Rightarrow> d | Some v \<Rightarrow> v)"

text \<open>
  The body of the loop of \<^verbatim>\<open>load_photos_from_cloudinary\<close>; \<open>n\<close> is
  \<^verbatim>\<open>len(photos_data)\<close>. \<open>None\<close> is the \<^verbatim>\<open>ValueError\<close> of \<^verbatim>\<open>int(context['id'])\<close>.
\<close>

definition photo_of_resource :: "python \<Rightarrow> nat \<Rightarrow> resource \<Rightarrow> photo option" where
  "photo_of_resource py n r =
     (let ctx = context_r r;
          cid = ctx_get ctx ''collection_id'' [];
          collection_id = (if cid \<noteq> [] then
                             (case int_str py cid of Some i \<Rightarrow> PInt i | None \<Rightarrow> PNone)
                           else PNone);
          ident = (case map_of ctx ''id'' of
                     None \<Rightarrow> Some (int n + 1)
                   | Some s \<Rightarrow> int_str py s)
      in case ident of
           None \<Rightarrow> None
         | Some i \<Rightarrow> Some
             \<lparr>p_id = i,
              filename = ctx_get ctx ''filename'' ''photo.jpg'',
              title = ctx_get ctx ''title'' ''Untitled'',
              description = ctx_get ctx ''description'' [],
              collection_id = collection_id,
              cloudinary_url = secure_url r,
              cloudinary_public_id = Some (public_id r),
              image_url = secure_url r,
              upload_date = ctx_get ctx ''upload_date''
                              (case created_at r of None \<Rightarrow> [] | Some d \<Rightarrow> d),
              storage_type = ''cloudinary''\<rparr>)"

fun build_photos :: "python \<Rightarrow> resource list \<Rightarrow> photo list \<Rightarrow> photo list option" where
  "build_photos py [] photos_data = Some photos_data"
| "build_photos py (r # rs) photos_data =
     (case photo_of_resource py (length photos_data) r of
        None \<Rightarrow> None
      | Some p \<Rightarrow> build_photos py rs (photos_data @ [p]))"

text \<open>
  \<^verbatim>\<open>load_photos_from_cloudinary\<close>: at most 500 assets are listed; any exception gives
  the empty list; the photos are sorted by id (Python's sort is stable).
\<close>

definition load_photos_from_cloudinary :: "python \<Rightarrow> load_env \<Rightarrow> world \<Rightarrow> photo list" where
  "load_photos_from_cloudinary py env w =
     (if \<not> cloudinary_configured w then []
      else if \<not> query_ok env then []
      else case build_photos py (take 500 (assets w)) [] of
             None \<Rightarrow> []
           | Some photos_data \<Rightarrow> sort_key p_id photos_data)"

text \<open>
  \<^verbatim>\<open>load_collections_from_cloudinary\<close>: the lookup of the raw document and its download
  are one query here (either raising gives the empty list); a missing document raises.
\<close>

definition load_collections_from_cloudinary :: "load_env \<Rightarrow> world \<Rightarrow> collection list" where
  "load_collections_from_cloudinary env w =
     (if \<not> cloudinary_configured w then []
      else if \<not> query_ok env then []
      else case collections_metadata w of
             None \<Rightarrow> []
           | Some collections_data \<Rightarrow> collections_data)"

definition load_photos_data :: "python \<Rightarrow> load_env \<Rightarrow> world \<Rightarrow> photo list \<times> world" where
  "load_photos_data py env w =
     (let cloudinary_data = load_photos_from_cloudinary py env w
      in if cloudinary_data \<noteq> [] then
           (cloudinary_data,
            if cache_ok env then w\<lparr>local_metadata_file := Content cloudinary_data\<rparr> else w)
         else
           (case local_metadata_file w of
              Content data \<Rightarrow> (data, w)
            | Absent \<Rightarrow> ([], w)
            | Unreadable \<Rightarrow> ([], w)))"

definition load_collections_data :: "load_env \<Rightarrow> world \<Rightarrow> collection list \<times> world" where
  "load_collections_data env w =
     (let cloudinary_data = load_collections_from_cloudinary env w
      in if cloudinary_data \<noteq> [] then
           (cloudinary_data,
            if cache_ok env then w\<lparr>local_collections_file := Content cloudinary_data\<rparr> else w)
         else
           (case local_collections_file w of
              Content data \<Rightarrow> (data, w)
            | Absent \<Rightarrow> ([], w)
            | Unreadable \<Rightarrow> ([], w)))"

section \<open>ID allocator\<close>

text \<open>\<^verbatim>\<open>max\<close> over a generator that is not empty: a left fold from the first element.\<close>

definition get_next_photo_id :: "python \<Rightarrow> load_env \<Rightarrow> world \<Rightarrow> int \<times> world" where
  "get_next_photo_id py env w =
     (let (photos_data, w') = load_photos_data py env w
      in case map p_id photos_data of
           [] \<Rightarrow> (1, w')
         | i # ids \<Rightarrow> (fold max ids i + 1, w'))"

definition get_next_collection_id :: "load_env \<Rightarrow> world \<Rightarrow> int \<times> world" where
  "get_next_collection_id env w =
     (let (collections_data, w') = load_collections_data env w
      in case map c_id collections_data of
           [] \<Rightarrow> (1, w')
         | i # ids \<Rightarrow> (fold max ids i + 1, w'))"

text \<open>
  \<^verbatim>\<open>save_collections_to_cloudinary\<close>: the upload of the raw document replaces it; \<open>ok\<close>
  tells whether the upload returns or raises.
\<close>

definition save_collections_to_cloudinary :: "bool \<Rightarrow> world \<Rightarrow> collection list \<Rightarrow> bool \<times> world" where
  "save_collections_to_cloudinary ok w collections_data =
     (if \<not> cloudinary_configured w then (False, w)
      else if ok then (True, w\<lparr>collections_metadata := Some collections_data\<rparr>)
      else (False, w))"

record save_env =
  upload_ok :: bool
  write_ok :: bool

definition save_collections_data :: "save_env \<Rightarrow> world \<Rightarrow> collection list \<Rightarrow> bool \<times> world" where
  "save_collections_data env w collections_data =
     (let (cloudinary_success, w1) =
            (if cloudinary_configured w
             then save_collections_to_cloudinary (upload_ok env) w collections_data
             else (False, w));
          (local_success, w2) =
            (if write_ok env
             then (True, w1\<lparr>local_collections_file := Content collections_data\<rparr>)
             else (False, w1))
      in (if cloudinary_configured w then cloudinary_success else local_success, w2))"

section \<open>Collection-photo linker\<close>

definition get_collection_photo_count ::
  "python \<Rightarrow> load_env \<Rightarrow> world \<Rightarrow> pyval \<Rightarrow> nat \<times> world" where
  "get_collection_photo_count py env w cid =
     (let (photos_data, w') = load_photos_data py env w
      in (length (filter (\<lambda>p. py_eq (collection_id p) cid) photos_data), w'))"

definition get_collection_name :: "load_env \<Rightarrow> world \<Rightarrow> pyval \<Rightarrow> string option \<times> world" where
  "get_collection_name env w cid =
     (if \<not> truthy cid then (None, w)
      else let (collections_data, w') = load_collections_data env w
           in (map_option c_name (find (\<lambda>c. py_eq (PInt (c_id c)) cid) collections_data), w'))"

section \<open>Request handlers\<close>

text \<open>
  A handler answers with a failure (the error of the JSON envelope, with its HTTP status)
  or with its payload.
\<close>

datatype failure =
    Unauthorized
  | NameRequired
  | NameExists
  | CollectionNotFound
  | InvalidCollectionId
  | InvalidCollectionIdFormat
  | PhotoNotFound
  | NoPhotoFile
  | NoPhotoSelected
  | SaveFailed
  | CloudinaryUpdateFailed
  | UploadFailed
  | NotConfigured
  | Unexpected

fun status_code :: "failure \<Rightarrow> nat" where
  "status_code Unauthorized = 401"
| "status_code NameRequired = 400"
| "status_code NameExists = 400"
| "status_code CollectionNotFound = 404"
| "status_code InvalidCollectionId = 400"
| "status_code InvalidCollectionIdFormat = 400"
| "status_code PhotoNotFound = 404"
| "status_code NoPhotoFile = 400"
| "status_code NoPhotoSelected = 400"
| "status_code SaveFailed = 500"
| "status_code CloudinaryUpdateFailed = 500"
| "status_code UploadFailed = 500"
| "status_code NotConfigured = 500"
| "status_code Unexpected = 500"

text \<open>The header \<^verbatim>\<open>X-Admin-Password\<close>; \<open>None\<close> when the request has none.\<close>

definition authorized :: "string option \<Rightarrow> bool" where
  "authorized password = (password = Some ''Hanshow99@'')"

text \<open>An assignment through a reference to the first list element that satisfies \<open>P\<close>.\<close>

fun update_first :: "('a \<Rightarrow> bool) \<Rightarrow> ('a \<Rightarrow> 'a) \<Rightarrow> 'a list \<Rightarrow> 'a list" where
  "update_first P f [] = []"
| "update_first P f (x # xs) = (if P x then f x # xs else x # update_first P f xs)"

subsection \<open>Collections\<close>



record listing_env =
  listing_photos :: load_env
  listing_collections :: load_env

text \<open>
  \<^verbatim>\<open>get_collection_photos\<close>: the payload is the photo list, the collection and the
  count. \<^verbatim>\<open>sort(key, reverse=True)\<close> reverses, sorts stably and reverses again.
\<close>

definition get_collection_photos ::
  "python \<Rightarrow> listing_env \<Rightarrow> world \<Rightarrow> int \<Rightarrow> (failure + photo list \<times> collection \<times> nat) \<times> world" where
  "get_collection_photos py env w cid =
     (let (photos_data, w1) = load_photos_data py (listing_photos env) w;
          (collections_data, w2) = load_collections_data (listing_collections env) w1
      in case find (\<lambda>c. c_id c = cid) collections_data of
           None \<Rightarrow> (Inl CollectionNotFound, w2)
         | Some collection \<Rightarrow>
             let collection_photos =
                   filter (\<lambda>p. collection_id p \<noteq> PNone \<and> py_str py (collection_id p) = str_int cid)
                     photos_data;
                 sorted_photos = rev (sort_key upload_date (rev collection_photos))
             in (Inr (sorted_photos, collection, length sorted_photos), w2))"



subsection \<open>The remote asset calls\<close>

text \<open>
  The three calls of the external uploader that the photo handlers make, as the spec
  describes the collaborator; \<open>ok\<close> tells whether the call returns, and \<open>None\<close> is the
  exception. \<^verbatim>\<open>explicit\<close> replaces the whole context of an existing asset and raises
  when there is none; \<^verbatim>\<open>destroy\<close> removes the asset; \<^verbatim>\<open>upload\<close> stores a new asset
  under \<^verbatim>\<open>folder/public_id\<close>, replacing one of the same name.
\<close>

definition uploader_explicit ::
  "bool \<Rightarrow> string \<Rightarrow> (string \<times> string) list \<Rightarrow> world \<Rightarrow> world option" where
  "uploader_explicit ok pid ctx w =
     (if ok \<and> list_ex (\<lambda>r. public_id r = pid) (assets w)
      then Some (w\<lparr>assets := map (\<lambda>r. if public_id r = pid then r\<lparr>context_r := ctx\<rparr> else r)
                                 (assets w)\<rparr>)
      else None)"

definition uploader_destroy :: "bool \<Rightarrow> string \<Rightarrow> world \<Rightarrow> world option" where
  "uploader_destroy ok pid w =
     (if ok then Some (w\<lparr>assets := filter (\<lambda>r. public_id r \<noteq> pid) (assets w)\<rparr>) else None)"

definition uploader_upload ::
  "bool \<Rightarrow> string \<Rightarrow> string \<Rightarrow> string \<Rightarrow> string \<Rightarrow> (string \<times> string) list \<Rightarrow> world
     \<Rightarrow> (resource \<times> world) option" where
  "uploader_upload ok url stamp pid folder ctx w =
     (if ok then
        (let r = \<lparr>public_id = folder @ ''/'' @ pid, secure_url = url,
                  created_at = Some stamp, context_r = ctx\<rparr>
         in Some (r, w\<lparr>assets := filter (\<lambda>a. public_id a \<noteq> public_id r) (assets w) @ [r]\<rparr>))
      else None)"

subsection \<open>Photos\<close>

record reassign_env =
  reassign_collections :: load_env
  reassign_photos :: load_env
  explicit_ok :: bool
  mirror_ok :: bool

text \<open>
  \<^verbatim>\<open>update_photo_collection\<close>, after the validation of the target: \<open>cid\<close> is the
  integer target, or the falsy value that skipped the validation.
\<close>

definition reassign_photo ::
  "python \<Rightarrow> reassign_env \<Rightarrow> world \<Rightarrow> int \<Rightarrow> pyval \<Rightarrow> (failure + unit) \<times> world" where
  "reassign_photo py env w pid cid =
     (let (photos_data, w1) = load_photos_data py (reassign_photos env) w
      in case find (\<lambda>p. p_id p = pid) photos_data of
           None \<Rightarrow> (Inl PhotoNotFound, w1)
         | Some photo \<Rightarrow>
             let remote =
                   (case cloudinary_public_id photo of
                      None \<Rightarrow> Some w1
                    | Some public \<Rightarrow>
                        if cloudinary_configured w1 then
                          uploader_explicit (explicit_ok env) public
                            [(''id'', str_int (p_id photo)),
                             (''filename'', filename photo),
                             (''title'', title photo),
                             (''description'', description photo),
                             (''collection_id'', if truthy cid then py_str py cid else []),
                             (''upload_date'', upload_date photo)]
                            w1
                        else Some w1)
             in case remote of
                  None \<Rightarrow> (Inl CloudinaryUpdateFailed, w1)
                | Some w2 \<Rightarrow>
                    let photos_data' = update_first (\<lambda>p. p_id p = pid)
                                         (\<lambda>p. p\<lparr>collection_id := cid\<rparr>) photos_data
                    in (Inr (),
                        if mirror_ok env then w2\<lparr>local_metadata_file := Content photos_data'\<rparr>
                        else w2))"

text \<open>
  \<^verbatim>\<open>update_photo_collection\<close>: \<open>cid\<close> is the JSON field \<^verbatim>\<open>collection_id\<close>. The generator
  of \<^verbatim>\<open>any\<close> evaluates \<^verbatim>\<open>int(collection_id)\<close> at the first collection, so over no
  collection nothing raises; its exception reaches the outer handler.
\<close>

definition update_photo_collection ::
  "python \<Rightarrow> reassign_env \<Rightarrow> world \<Rightarrow> string option \<Rightarrow> int \<Rightarrow> pyval \<Rightarrow> (failure + unit) \<times> world" where
  "update_photo_collection py env w password pid cid =
     (if \<not> authorized password then (Inl Unauthorized, w)
      else if truthy cid then
        (let (collections_data, w1) = load_collections_data (reassign_collections env) w
         in if collections_data = [] then (Inl InvalidCollectionId, w1)
            else case py_int py cid of
                   None \<Rightarrow> (Inl Unexpected, w1)
                 | Some n \<Rightarrow>
                     if \<not> list_ex (\<lambda>c. c_id c = n) collections_data
                     then (Inl InvalidCollectionId, w1)
                     else reassign_photo py env w1 pid (PInt n))
      else reassign_photo py env w pid cid)"

text \<open>
  The form of an upload: each field is \<open>None\<close> when the request does not have it;
  \<open>photo_filename\<close> is the name of the file part \<^verbatim>\<open>photo\<close>.
\<close>

record upload_form =
  form_title :: "string option"
  form_description :: "string option"
  form_collection_id :: "string option"
  photo_filename :: "string option"

text \<open>
  What the environment gives to one upload: the outcomes of the external calls, the
  value of \<^verbatim>\<open>uuid.uuid4().hex\<close>, the two readings of the clock, and the URL and the
  creation time that the service reports.
\<close>

record upload_env =
  upload_collections :: load_env
  upload_photos :: load_env
  uploader_ok :: bool
  uuid_hex :: string
  now_context :: string
  now_record :: string
  result_url :: string
  result_created_at :: string

definition file_extension :: "python \<Rightarrow> string \<Rightarrow> string" where
  "file_extension py name =
     (if CHR ''.'' \<in> set name
      then str_lower py (rev (takeWhile (\<lambda>c. c \<noteq> CHR ''.'') (rev name)))
      else ''jpg'')"

definition unique_filename :: "python \<Rightarrow> string \<Rightarrow> string \<Rightarrow> string" where
  "unique_filename py hex name = hex @ ''.'' @ file_extension py name"

text \<open>\<^verbatim>\<open>upload_photo\<close>, from the check of the file part on; \<open>cid\<close> is the validated target.\<close>

definition store_photo ::
  "python \<Rightarrow> upload_env \<Rightarrow> world \<Rightarrow> upload_form \<Rightarrow> int option \<Rightarrow> (failure + photo) \<times> world" where
  "store_photo py env w form cid =
     (let title = (case form_title form of None \<Rightarrow> ''Untitled'' | Some t \<Rightarrow> t);
          description = (case form_description form of None \<Rightarrow> [] | Some d \<Rightarrow> d)
      in case photo_filename form of
           None \<Rightarrow> (Inl NoPhotoFile, w)
         | Some name \<Rightarrow>
             if name = [] then (Inl NoPhotoSelected, w)
             else
               let (photo_id, w1) = get_next_photo_id py (upload_photos env) w
               in if cloudinary_configured w1 then
                    (case uploader_upload (uploader_ok env) (result_url env) (result_created_at env)
                            (''photo_'' @ str_int photo_id @ ''_'' @ unique_filename py (uuid_hex env) name)
                            ''georges_photo_gallery''
                            [(''id'', str_int photo_id),
                             (''filename'', name),
                             (''title'', title),
                             (''description'', description),
                             (''collection_id'',
                                case cid of None \<Rightarrow> [] | Some n \<Rightarrow> if n \<noteq> 0 then str_int n else []),
                             (''upload_date'', now_context env)]
                            w1 of
                       None \<Rightarrow> (Inl UploadFailed, w1)
                     | Some (upload_result, w2) \<Rightarrow>
                         (Inr \<lparr>p_id = photo_id,
                               filename = name,
                               title = title,
                               description = description,
                               collection_id = (case cid of None \<Rightarrow> PNone | Some n \<Rightarrow> PInt n),
                               cloudinary_url = secure_url upload_result,
                               cloudinary_public_id = Some (public_id upload_result),
                               image_url = secure_url upload_result,
                               upload_date = now_record env,
                               storage_type = ''cloudinary''\<rparr>, w2))
                  else (Inl NotConfigured, w1))"

definition upload_photo ::
  "python \<Rightarrow> upload_env \<Rightarrow> world \<Rightarrow> string option \<Rightarrow> upload_form \<Rightarrow> (failure + photo) \<times> world" where
  "upload_photo py env w password form =
     (if \<not> authorized password then (Inl Unauthorized, w)
      else case form_collection_id form of
             None \<Rightarrow> store_photo py env w form None
           | Some s \<Rightarrow>
               if s = [] then store_photo py env w form None
               else case int_str py s of
                      None \<Rightarrow> (Inl InvalidCollectionIdFormat, w)
                    | Some n \<Rightarrow>
                        let (collections_data, w1) = load_collections_data (upload_collections env) w
                        in if \<not> list_ex (\<lambda>c. c_id c = n) collections_data
                           then (Inl InvalidCollectionId, w1)
                           else store_photo py env w1 form (Some n))"

record delete_env =
  delete_photos :: load_env
  destroy_ok :: bool
  persist_ok :: bool

definition delete_photo ::
  "python \<Rightarrow> delete_env \<Rightarrow> world \<Rightarrow> string option \<Rightarrow> int \<Rightarrow> (failure + unit) \<times> world" where
  "delete_photo py env w password pid =
     (if \<not> authorized password then (Inl Unauthorized, w)
      else
        let (photos_data, w1) = load_photos_data py (delete_photos env) w
        in case find (\<lambda>p. p_id p = pid) photos_data of
             None \<Rightarrow> (Inl PhotoNotFound, w1)
           | Some photo \<Rightarrow>
               let w2 = (case cloudinary_public_id photo of
                           None \<Rightarrow> w1
                         | Some public \<Rightarrow>
                             if cloudinary_configured w1 then
                               (case uploader_destroy (destroy_ok env) public w1 of
                                  None \<Rightarrow> w1
                                | Some w' \<Rightarrow> w')
                             else w1);
                   photos_data' = filter (\<lambda>p. p_id p \<noteq> pid) photos_data
               in (Inr (),
                   if persist_ok env then w2\<lparr>local_metadata_file := Content photos_data'\<rparr>
                   else w2))"

section \<open>Example states\<close>

text \<open>
  The builtins for the examples, given on strings of ASCII characters: \<^verbatim>\<open>str.strip()\<close>
  drops the characters 9 to 13 and 28 to 32 at both ends, \<^verbatim>\<open>str.lower()\<close> maps A to Z
  to a to z, and \<^verbatim>\<open>int(s)\<close> drops the characters 9 to 13 and 32 at both ends, allows one
  sign and then wants decimal digits, where single underscores may separate digits.
  \<^verbatim>\<open>str(x)\<close> of a float is given for the values that are not finite and for the negative
  zero. On other arguments these functions are not Python's; the examples use none.
\<close>

definition is_space :: "char \<Rightarrow> bool" where
  "is_space c = (let n = (of_char c :: nat) in (9 \<le> n \<and> n \<le> 13) \<or> (28 \<le> n \<and> n \<le> 32))"

definition ascii_strip :: "string \<Rightarrow> string" where
  "ascii_strip s = rev (dropWhile is_space (rev (dropWhile is_space s)))"

definition lower_char :: "char \<Rightarrow> char" where
  "lower_char c = (let n = (of_char c :: nat) in if 65 \<le> n \<and> n \<le> 90 then char_of (n + 32) else c)"

definition ascii_lower :: "string \<Rightarrow> string" where
  "ascii_lower s = map lower_char s"

definition is_int_space :: "char \<Rightarrow> bool" where
  "is_int_space c = (let n = (of_char c :: nat) in (9 \<le> n \<and> n \<le> 13) \<or> n = 32)"

definition is_digit :: "char \<Rightarrow> bool" where
  "is_digit c = (let n = (of_char c :: nat) in 48 \<le> n \<and> n \<le> 57)"

definition digit_val :: "char \<Rightarrow> nat" where
  "digit_val c = of_char c - 48"

fun parse_digits :: "string \<Rightarrow> nat \<Rightarrow> nat option" where
  "parse_digits [] acc = Some acc"
| "parse_digits (c # cs) acc =
     (if is_digit c then parse_digits cs (10 * acc + digit_val c)
      else if c = CHR ''_'' then
        (case cs of
           [] \<Rightarrow> None
         | d # ds \<Rightarrow> if is_digit d then parse_digits cs acc else None)
      else None)"

definition parse_nat :: "string \<Rightarrow> nat option" where
  "parse_nat s =
     (case s of
        [] \<Rightarrow> None
      | c # cs \<Rightarrow> if is_digit c then parse_digits s 0 else None)"

definition ascii_int :: "string \<Rightarrow> int option" where
  "ascii_int s =
     (case rev (dropWhile is_int_space (rev (dropWhile is_int_space s))) of
        [] \<Rightarrow> None
      | c # cs \<Rightarrow>
          if c = CHR ''-'' then map_option (\<lambda>n. - int n) (parse_nat cs)
          else if c = CHR ''+'' then map_option int (parse_nat cs)
          else map_option int (parse_nat (c # cs)))"

fun special_float :: "pyfloat \<Rightarrow> string" where
  "special_float (Finite q) = []"
| "special_float NegZero = ''-0.0''"
| "special_float PosInf = ''inf''"
| "special_float NegInf = ''-inf''"
| "special_float NaN = ''nan''"

definition ascii_python :: python where
  "ascii_python =
     \<lparr>str_lower = ascii_lower, str_strip = ascii_strip, int_str = ascii_int,
      str_float = special_float\<rparr>"

text \<open>Concrete photos, stores and outcomes, on which the theorems below are run.\<close>

definition mk_photo :: "int \<Rightarrow> pyval \<Rightarrow> string \<Rightarrow> photo" where
  "mk_photo i c d =
     \<lparr>p_id = i, filename = ''a.jpg'', title = ''A'', description = [], collection_id = c,
      cloudinary_url = ''u'', cloudinary_public_id = None, image_url = ''u'',
      upload_date = d, storage_type = ''cloudinary''\<rparr>"

definition mk_collection :: "int \<Rightarrow> string \<Rightarrow> collection" where
  "mk_collection i n = \<lparr>c_id = i, c_name = n, created_date = ''2024-01-01T00:00:00''\<rparr>"

definition local_world :: "photo list \<Rightarrow> collection list \<Rightarrow> world" where
  "local_world ps cs =
     \<lparr>cloudinary_configured = False, assets = [], collections_metadata = None,
      local_metadata_file = Content ps, local_collections_file = Content cs\<rparr>"

definition all_ok :: load_env where
  "all_ok = \<lparr>query_ok = True, cache_ok = True\<rparr>"

definition ids_372 :: world where
  "ids_372 =
     local_world [mk_photo 3 PNone [], mk_photo 7 PNone [], mk_photo 2 PNone []]
       [mk_collection 3 ''a'', mk_collection 7 ''b'', mk_collection 2 ''c'']"

definition query_down :: load_env where
  "query_down = \<lparr>query_ok = False, cache_ok = True\<rparr>"

definition listing_ok :: listing_env where
  "listing_ok = \<lparr>listing_photos = all_ok, listing_collections = all_ok\<rparr>"

text \<open>A cache in which one photo of collection 3 carries the id as a string.\<close>

definition drift_world :: world where
  "drift_world =
     local_world [mk_photo 1 (PStr ''3'') ''2024-01-01'', mk_photo 2 (PInt 3) ''2024-01-02'']
       [mk_collection 3 ''Weddings'']"

text \<open>A cache with five photos, three of them in collection 3, two of these of one date.\<close>

definition album_world :: world where
  "album_world =
     local_world
       [mk_photo 1 (PInt 3) ''2024-01-01'', mk_photo 2 (PStr ''3'') ''2024-01-02'',
        mk_photo 3 (PInt 3) ''2024-01-01'', mk_photo 4 (PInt 4) ''2024-01-03'',
        mk_photo 5 PNone ''2024-01-04'']
       [mk_collection 3 ''Weddings'', mk_collection 4 ''Travel'']"

text \<open>A configured remote store with one asset and one collection, and no usable cache.\<close>

definition asset_1 :: resource where
  "asset_1 =
     \<lparr>public_id = ''georges_photo_gallery/photo_1_ab12.jpg'',
      secure_url = ''https://cdn.example/photo_1'',
      created_at = Some ''2024-01-01T10:00:00'',
      context_r = [(''id'', ''1''), (''filename'', ''a.jpg''), (''title'', ''A''),
                   (''description'', []), (''collection_id'', ''3''),
                   (''upload_date'', ''2024-01-01T09:00:00'')]\<rparr>"

definition photo_1 :: photo where
  "photo_1 =
     \<lparr>p_id = 1, filename = ''a.jpg'', title = ''A'', description = [], collection_id = PInt 3,
      cloudinary_url = ''https://cdn.example/photo_1'',
      cloudinary_public_id = Some ''georges_photo_gallery/photo_1_ab12.jpg'',
      image_url = ''https://cdn.example/photo_1'',
      upload_date = ''2024-01-01T09:00:00'', storage_type = ''cloudinary''\<rparr>"

definition asset_2 :: resource where
  "asset_2 =
     \<lparr>public_id = ''georges_photo_gallery/photo_2_cd34.png'',
      secure_url = ''https://cdn.example/photo_2'',
      created_at = Some ''2024-01-02T10:00:00'',
      context_r = [(''id'', ''2''), (''filename'', ''b.png''), (''title'', ''B''),
                   (''description'', []), (''collection_id'', []),
                   (''upload_date'', ''2024-01-02T09:00:00'')]\<rparr>"

text \<open>The same store with a second asset.\<close>

definition remote_two :: world where
  "remote_two =
     \<lparr>cloudinary_configured = True, assets = [asset_1, asset_2],
      collections_metadata = Some [mk_collection 3 ''Weddings''],
      local_metadata_file = Absent, local_collections_file = Unreadable\<rparr>"

definition remote_world :: world where
  "remote_world =
     \<lparr>cloudinary_configured = True, assets = [asset_1],
      collections_metadata = Some [mk_collection 3 ''Weddings''],
      local_metadata_file = Absent, local_collections_file = Unreadable\<rparr>"




definition admin :: "string option" where
  "admin = Some ''Hanshow99@''"

definition reassign_ok :: reassign_env where
  "reassign_ok =
     \<lparr>reassign_collections = all_ok, reassign_photos = all_ok,
      explicit_ok = True, mirror_ok = True\<rparr>"

definition explicit_down :: reassign_env where
  "explicit_down =
     \<lparr>reassign_collections = all_ok, reassign_photos = all_ok,
      explicit_ok = False, mirror_ok = True\<rparr>"

definition upload_ok_env :: upload_env where
  "upload_ok_env =
     \<lparr>upload_collections = all_ok, upload_photos = all_ok, uploader_ok = True,
      uuid_hex = ''c0ffee'', now_context = ''2024-03-01T12:00:00'',
      now_record = ''2024-03-01T12:00:01'', result_url = ''https://cdn.example/photo_2'',
      result_created_at = ''2024-03-01T12:00:02Z''\<rparr>"

text \<open>Two forms with the file \<^verbatim>\<open>sunset\<close>: one with an empty title, one without a title.\<close>

definition empty_title_form :: upload_form where
  "empty_title_form =
     \<lparr>form_title = Some [], form_description = None, form_collection_id = Some ''3'',
      photo_filename = Some ''sunset''\<rparr>"

definition no_title_form :: upload_form where
  "no_title_form =
     \<lparr>form_title = None, form_description = None, form_collection_id = Some ''3'',
      photo_filename = Some ''sunset''\<rparr>"

text \<open>The record that the upload of \<^verbatim>\<open>sunset\<close> to the configured store answers.\<close>

definition uploaded :: "string \<Rightarrow> photo" where
  "uploaded t =
     \<lparr>p_id = 2, filename = ''sunset'', title = t, description = [], collection_id = PInt 3,
      cloudinary_url = ''https://cdn.example/photo_2'',
      cloudinary_public_id = Some ''georges_photo_gallery/photo_2_c0ffee.jpg'',
      image_url = ''https://cdn.example/photo_2'',
      upload_date = ''2024-03-01T12:00:01'', storage_type = ''cloudinary''\<rparr>"

definition delete_ok :: delete_env where
  "delete_ok = \<lparr>delete_photos = all_ok, destroy_ok = True, persist_ok = True\<rparr>"

definition destroy_down :: delete_env where
  "destroy_down = \<lparr>delete_photos = all_ok, destroy_ok = False, persist_ok = True\<rparr>"

definition remote_down :: delete_env where
  "remote_down = \<lparr>delete_photos = query_down, destroy_ok = False, persist_ok = True\<rparr>"

definition persist_down :: delete_env where
  "persist_down = \<lparr>delete_photos = all_ok, destroy_ok = True, persist_ok = False\<rparr>"

text \<open>A configured store whose two assets carry no context: the load numbers them 1 and 2.\<close>

definition bare_asset :: "string \<Rightarrow> resource" where
  "bare_asset n =
     \<lparr>public_id = ''georges_photo_gallery/'' @ n, secure_url = ''https://cdn.example/'' @ n,
      created_at = Some ''2024-01-01T10:00:00'', context_r = []\<rparr>"

definition bare_world :: world where
  "bare_world =
     \<lparr>cloudinary_configured = True, assets = [bare_asset ''a'', bare_asset ''b''],
      collections_metadata = None,
      local_metadata_file = Absent, local_collections_file = Absent\<rparr>"

section \<open>Collection-photo linker: type drift\<close>

text \<open>
  C1. The count and the name lookup compare with Python's equality, so the string
  \<^verbatim>\<open>"3"\<close> and the integer 3 differ for them: of the two photos of collection 3 each
  query counts one, and the name is not found for the string, while the listing of the
  collection coerces both sides to strings and returns both photos.
\<close>

theorem photo_count_type_drift:
  "fst (get_collection_photo_count ascii_python all_ok drift_world (PInt 3)) = 1
   \<and> fst (get_collection_photo_count ascii_python all_ok drift_world (PStr ''3'')) = 1
   \<and> fst (get_collection_name all_ok drift_world (PInt 3)) = Some ''Weddings''
   \<and> fst (get_collection_name all_ok drift_world (PStr ''3'')) = None
   \<and> fst (get_collection_photos ascii_python listing_ok drift_world 3) =
       Inr ([mk_photo 2 (PInt 3) ''2024-01-02'', mk_photo 1 (PStr ''3'') ''2024-01-01''],
            mk_collection 3 ''Weddings'', 2)"
  by code_simp

section \<open>ID allocator: the next id\<close>

lemma next_of_ids:
  "(case ids of [] \<Rightarrow> 1 | i # rest \<Rightarrow> fold max rest i + 1) =
     (if ids = [] then 1 else Max (set ids) + (1::int))"
proof (cases ids)
  case Nil
  then show ?thesis by simp
next
  case (Cons a list)
  then show ?thesis using Max.set_eq_fold [of a list] by simp
qed

text \<open>
  C2. Both allocators return 1 when the loaded sequence is empty and the greatest id
  plus one otherwise.
\<close>

theorem next_id_allocator:
  "fst (get_next_photo_id py env w) =
     (let ids = map p_id (fst (load_photos_data py env w))
      in if ids = [] then 1 else Max (set ids) + 1)
   \<and> fst (get_next_collection_id env w) =
     (let ids = map c_id (fst (load_collections_data env w))
      in if ids = [] then 1 else Max (set ids) + 1)"
proof -
  have "fst (get_next_photo_id py env w) =
      (case map p_id (fst (load_photos_data py env w)) of
         [] \<Rightarrow> 1 | i # rest \<Rightarrow> fold max rest i + 1)"
    by (simp add: get_next_photo_id_def split: prod.splits list.splits)
  moreover have "fst (get_next_collection_id env w) =
      (case map c_id (fst (load_collections_data env w)) of
         [] \<Rightarrow> 1 | i # rest \<Rightarrow> fold max rest i + 1)"
    by (simp add: get_next_collection_id_def split: prod.splits list.splits)
  ultimately show ?thesis
    unfolding Let_def next_of_ids by simp
qed

text \<open>On the ids 3, 7, 2 both allocators give 8, and 1 on empty stores.\<close>

theorem next_id_allocator_witness:
  "fst (get_next_photo_id ascii_python all_ok ids_372) = 8
   \<and> fst (get_next_collection_id all_ok ids_372) = 8
   \<and> fst (get_next_photo_id ascii_python all_ok (local_world [] [])) = 1
   \<and> fst (get_next_collection_id all_ok (local_world [] [])) = 1"
  using next_id_allocator [of ascii_python all_ok ids_372]
    next_id_allocator [of ascii_python all_ok "local_world [] []"]
  by (simp add: ids_372_def local_world_def all_ok_def mk_photo_def mk_collection_def
      load_photos_data_def load_collections_data_def load_photos_from_cloudinary_def
      load_collections_from_cloudinary_def)

section \<open>Metadata reconciler: loads\<close>

lemma remote_photos_unavailable:
  "\<not> cloudinary_configured w \<or> \<not> query_ok env \<Longrightarrow> load_photos_from_cloudinary py env w = []"
  by (auto simp: load_photos_from_cloudinary_def)

lemma remote_collections_unavailable:
  "\<not> cloudinary_configured w \<or> \<not> query_ok env \<Longrightarrow> load_collections_from_cloudinary env w = []"
  by (auto simp: load_collections_from_cloudinary_def)

lemma load_photos_data_local:
  "load_photos_from_cloudinary py env w = [] \<Longrightarrow>
     load_photos_data py env w =
       (case local_metadata_file w of Content data \<Rightarrow> data | _ \<Rightarrow> [], w)"
  by (simp add: load_photos_data_def split: cache_file.splits)

lemma load_photos_data_remote:
  "load_photos_from_cloudinary py env w \<noteq> [] \<Longrightarrow>
     load_photos_data py env w =
       (load_photos_from_cloudinary py env w,
        if cache_ok env
        then w\<lparr>local_metadata_file := Content (load_photos_from_cloudinary py env w)\<rparr> else w)"
  by (simp add: load_photos_data_def Let_def)

lemma load_collections_data_local:
  "load_collections_from_cloudinary env w = [] \<Longrightarrow>
     load_collections_data env w =
       (case local_collections_file w of Content data \<Rightarrow> data | _ \<Rightarrow> [], w)"
  by (simp add: load_collections_data_def split: cache_file.splits)

lemma load_collections_data_remote:
  "load_collections_from_cloudinary env w \<noteq> [] \<Longrightarrow>
     load_collections_data env w =
       (load_collections_from_cloudinary env w,
        if cache_ok env
        then w\<lparr>local_collections_file := Content (load_collections_from_cloudinary env w)\<rparr>
        else w)"
  by (simp add: load_collections_data_def Let_def)

text \<open>
  C3. A load returns the local cache content (the empty list when the file is absent or
  unreadable) when the remote store is not configured, the remote query fails or the
  remote result is empty; a remote result with at least one entity is returned, and
  the cache is overwritten with it when the write succeeds.
\<close>

theorem load_remote_first_then_local:
  "((\<not> cloudinary_configured w \<or> \<not> query_ok env \<or> load_photos_from_cloudinary py env w = []) \<longrightarrow>
      load_photos_data py env w =
        (case local_metadata_file w of Content data \<Rightarrow> data | Absent \<Rightarrow> [] | Unreadable \<Rightarrow> [], w))
   \<and> (load_photos_from_cloudinary py env w \<noteq> [] \<longrightarrow>
      load_photos_data py env w =
        (load_photos_from_cloudinary py env w,
         if cache_ok env
         then w\<lparr>local_metadata_file := Content (load_photos_from_cloudinary py env w)\<rparr> else w))
   \<and> ((\<not> cloudinary_configured w \<or> \<not> query_ok env \<or> load_collections_from_cloudinary env w = []) \<longrightarrow>
      load_collections_data env w =
        (case local_collections_file w of Content data \<Rightarrow> data | Absent \<Rightarrow> [] | Unreadable \<Rightarrow> [], w))
   \<and> (load_collections_from_cloudinary env w \<noteq> [] \<longrightarrow>
      load_collections_data env w =
        (load_collections_from_cloudinary env w,
         if cache_ok env
         then w\<lparr>local_collections_file := Content (load_collections_from_cloudinary env w)\<rparr>
         else w))"
  using remote_photos_unavailable [of w env py] remote_collections_unavailable [of w env]
    load_photos_data_local [of py env w] load_photos_data_remote [of py env w]
    load_collections_data_local [of env w] load_collections_data_remote [of env w]
  by (auto split: cache_file.splits)

text \<open>
  The remote listing wins and is cached; with the query down the absent or unreadable
  cache gives the empty list; an unconfigured store reads its cache.
\<close>

theorem load_remote_first_then_local_witness:
  "load_photos_data ascii_python all_ok remote_world =
     ([photo_1], remote_world\<lparr>local_metadata_file := Content [photo_1]\<rparr>)
   \<and> load_collections_data all_ok remote_world =
     ([mk_collection 3 ''Weddings''],
      remote_world\<lparr>local_collections_file := Content [mk_collection 3 ''Weddings'']\<rparr>)
   \<and> load_photos_data ascii_python query_down remote_world = ([], remote_world)
   \<and> load_collections_data query_down remote_world = ([], remote_world)
   \<and> load_photos_data ascii_python all_ok drift_world =
     ([mk_photo 1 (PStr ''3'') ''2024-01-01'', mk_photo 2 (PInt 3) ''2024-01-02''], drift_world)
   \<and> load_collections_data all_ok drift_world = ([mk_collection 3 ''Weddings''], drift_world)"
proof -
  have p: "load_photos_from_cloudinary ascii_python all_ok remote_world = [photo_1]"
    by code_simp
  have c: "load_collections_from_cloudinary all_ok remote_world = [mk_collection 3 ''Weddings'']"
    by code_simp
  have q: "\<not> query_ok query_down" "cache_ok all_ok"
    by (simp_all add: query_down_def all_ok_def)
  have f: "local_metadata_file remote_world = Absent"
    "local_collections_file remote_world = Unreadable"
    by (simp_all add: remote_world_def)
  have d: "\<not> cloudinary_configured drift_world"
    "local_metadata_file drift_world =
       Content [mk_photo 1 (PStr ''3'') ''2024-01-01'', mk_photo 2 (PInt 3) ''2024-01-02'']"
    "local_collections_file drift_world = Content [mk_collection 3 ''Weddings'']"
    by (simp_all add: drift_world_def local_world_def)
  show ?thesis
    using load_remote_first_then_local [of remote_world all_ok ascii_python]
      load_remote_first_then_local [of remote_world query_down ascii_python]
      load_remote_first_then_local [of drift_world all_ok ascii_python]
    by (simp add: p c q f d)
qed

section \<open>Metadata reconciler: saves\<close>

text \<open>
  C4. A save reports the remote outcome when the remote store is configured and the
  local outcome otherwise; the local file is written exactly when its write succeeds,
  whatever the remote outcome, and the remote document is replaced exactly when the
  remote store is configured and its upload succeeds, whatever the local outcome.
\<close>

theorem save_collections_data_outcome:
  "fst (save_collections_data env w cs) =
     (if cloudinary_configured w then upload_ok env else write_ok env)
   \<and> local_collections_file (snd (save_collections_data env w cs)) =
     (if write_ok env then Content cs else local_collections_file w)
   \<and> collections_metadata (snd (save_collections_data env w cs)) =
     (if cloudinary_configured w \<and> upload_ok env then Some cs else collections_metadata w)
   \<and> local_metadata_file (snd (save_collections_data env w cs)) = local_metadata_file w
   \<and> assets (snd (save_collections_data env w cs)) = assets w"
  by (simp add: save_collections_data_def save_collections_to_cloudinary_def)

text \<open>
  A failed local write beside a remote success, and a failed remote upload beside a
  local success.
\<close>

theorem save_collections_data_outcome_witness:
  "fst (save_collections_data \<lparr>upload_ok = True, write_ok = False\<rparr> remote_world [])
   \<and> local_collections_file
       (snd (save_collections_data \<lparr>upload_ok = True, write_ok = False\<rparr> remote_world []))
       = Unreadable
   \<and> collections_metadata
       (snd (save_collections_data \<lparr>upload_ok = True, write_ok = False\<rparr> remote_world []))
       = Some []
   \<and> \<not> fst (save_collections_data \<lparr>upload_ok = False, write_ok = True\<rparr> remote_world [])
   \<and> local_collections_file
       (snd (save_collections_data \<lparr>upload_ok = False, write_ok = True\<rparr> remote_world []))
       = Content []
   \<and> collections_metadata
       (snd (save_collections_data \<lparr>upload_ok = False, write_ok = True\<rparr> remote_world []))
       = Some [mk_collection 3 ''Weddings'']
   \<and> fst (save_collections_data \<lparr>upload_ok = False, write_ok = True\<rparr> drift_world [])"
  using save_collections_data_outcome [of "\<lparr>upload_ok = True, write_ok = False\<rparr>" remote_world "[]"]
    save_collections_data_outcome [of "\<lparr>upload_ok = False, write_ok = True\<rparr>" remote_world "[]"]
    save_collections_data_outcome [of "\<lparr>upload_ok = False, write_ok = True\<rparr>" drift_world "[]"]
  by (simp add: remote_world_def drift_world_def local_world_def)

section \<open>Collection-photo linker: the photos of a collection\<close>

lemma str_nat_digits: "set (str_nat n) \<subseteq> digit_char ` {..<10}"
proof (induction n rule: str_nat.induct)
  case (1 n)
  show ?case
  proof (cases "n < 10")
    case True
    then show ?thesis by (subst str_nat.simps) auto
  next
    case False
    have "n mod 10 < 10" by simp
    with False 1 show ?thesis by (subst str_nat.simps) auto
  qed
qed

lemma digit_char_not_N: "d < 10 \<Longrightarrow> digit_char d \<noteq> CHR ''N''"
proof
  assume d: "d < 10" and e: "digit_char d = CHR ''N''"
  then have "(of_char (digit_char d) :: nat) = of_char (CHR ''N'')" by simp
  with d show False by (simp add: digit_char_def)
qed

lemma str_int_not_None: "str_int n \<noteq> ''None''"
proof
  assume e: "str_int n = ''None''"
  show False
  proof (cases "n < 0")
    case True
    with e show False by (simp add: str_int_def)
  next
    case False
    with e have "CHR ''N'' \<in> set (str_nat (nat n))" by (simp add: str_int_def)
    with str_nat_digits obtain d where "d < 10" "digit_char d = CHR ''N''" by fastforce
    with digit_char_not_N show False by blast
  qed
qed

lemma coerced_match:
  "(collection_id p \<noteq> PNone \<and> py_str py (collection_id p) = str_int cid)
     = (py_str py (collection_id p) = str_int cid)"
  using str_int_not_None [of cid] by (cases "collection_id p") auto

lemma sort_reverse_descending:
  fixes f :: "'a \<Rightarrow> 'k::linorder"
  shows "sorted_wrt (\<lambda>a b. f b \<le> f a) (rev (sort_key f (rev xs)))"
proof -
  have "sorted (map f (sort_key f (rev xs)))" by simp
  then have "sorted_wrt (\<lambda>a b. f a \<le> f b) (sort_key f (rev xs))" by (simp add: sorted_map)
  then show ?thesis by (simp add: sorted_wrt_rev)
qed

lemma sort_reverse_stable:
  fixes f :: "'a \<Rightarrow> 'k::linorder"
  shows "filter (\<lambda>y. f y = k) (rev (sort_key f (rev xs))) = filter (\<lambda>y. f y = k) xs"
proof -
  have "filter (\<lambda>y. f y = k) (rev (sort_key f (rev xs)))
      = rev (filter (\<lambda>y. f y = k) (sort_key f (rev xs)))" by (simp add: rev_filter)
  also have "\<dots> = rev (filter (\<lambda>y. f y = k) (rev xs))" by (simp only: sort_key_stable)
  also have "\<dots> = filter (\<lambda>y. f y = k) xs" by (simp add: rev_filter)
  finally show ?thesis .
qed

text \<open>
  C5. The listing of a collection fails with the not-found status 404 when no loaded
  collection has the id. Otherwise it returns that collection and, up to order, exactly
  the photos whose collection id coerced to a string equals the decimal string of the
  id; the photos are in descending order of upload date, and photos of one date keep
  the order of the loaded list.
\<close>

theorem get_collection_photos_listing:
  fixes py env w cid
  defines "photos \<equiv> fst (load_photos_data py (listing_photos env) w)"
  defines "colls \<equiv> fst (load_collections_data (listing_collections env)
                            (snd (load_photos_data py (listing_photos env) w)))"
  defines "matching \<equiv> filter (\<lambda>p. py_str py (collection_id p) = str_int cid) photos"
  shows "(cid \<notin> c_id ` set colls \<longrightarrow>
            fst (get_collection_photos py env w cid) = Inl CollectionNotFound
            \<and> status_code CollectionNotFound = 404)
       \<and> (cid \<in> c_id ` set colls \<longrightarrow>
            (\<exists>ps c. fst (get_collection_photos py env w cid) = Inr (ps, c, length ps)
               \<and> find (\<lambda>c. c_id c = cid) colls = Some c
               \<and> mset ps = mset matching
               \<and> sorted_wrt (\<lambda>a b. upload_date b \<le> upload_date a) ps
               \<and> (\<forall>d. filter (\<lambda>p. upload_date p = d) ps
                        = filter (\<lambda>p. upload_date p = d) matching)))"
proof (intro conjI impI)
  assume "cid \<notin> c_id ` set colls"
  then have "find (\<lambda>c. c_id c = cid) colls = None"
    by (auto simp: find_None_iff)
  then show "fst (get_collection_photos py env w cid) = Inl CollectionNotFound"
    by (simp add: get_collection_photos_def colls_def split_beta)
next
  show "status_code CollectionNotFound = 404" by simp
next
  assume "cid \<in> c_id ` set colls"
  then obtain c where c: "find (\<lambda>c. c_id c = cid) colls = Some c"
    by (cases "find (\<lambda>c. c_id c = cid) colls") (auto simp: find_None_iff)
  let ?ps = "rev (sort_key upload_date (rev matching))"
  have "fst (get_collection_photos py env w cid) = Inr (?ps, c, length ?ps)"
    using c
    by (simp add: get_collection_photos_def colls_def matching_def photos_def coerced_match
        Let_def split_beta)
  moreover have "mset ?ps = mset matching" by simp
  moreover have "sorted_wrt (\<lambda>a b. upload_date b \<le> upload_date a) ?ps"
    by (rule sort_reverse_descending)
  moreover have "\<forall>d. filter (\<lambda>p. upload_date p = d) ?ps = filter (\<lambda>p. upload_date p = d) matching"
    by (simp only: sort_reverse_stable) simp
  ultimately show "\<exists>ps c. fst (get_collection_photos py env w cid) = Inr (ps, c, length ps)
               \<and> find (\<lambda>c. c_id c = cid) colls = Some c
               \<and> mset ps = mset matching
               \<and> sorted_wrt (\<lambda>a b. upload_date b \<le> upload_date a) ps
               \<and> (\<forall>d. filter (\<lambda>p. upload_date p = d) ps
                        = filter (\<lambda>p. upload_date p = d) matching)"
    using c by blast
qed

text \<open>
  In the cache of five photos, collection 9 is not found, and collection 3 lists its
  three photos.
\<close>

theorem get_collection_photos_listing_witness:
  "fst (get_collection_photos ascii_python listing_ok album_world 9) = Inl CollectionNotFound
   \<and> (\<exists>ps c. fst (get_collection_photos ascii_python listing_ok album_world 3) = Inr (ps, c, length ps)
          \<and> c = mk_collection 3 ''Weddings''
          \<and> mset ps = mset [mk_photo 1 (PInt 3) ''2024-01-01'', mk_photo 2 (PStr ''3'') ''2024-01-02'',
                            mk_photo 3 (PInt 3) ''2024-01-01'']
          \<and> filter (\<lambda>p. upload_date p = ''2024-01-01'') ps =
              [mk_photo 1 (PInt 3) ''2024-01-01'', mk_photo 3 (PInt 3) ''2024-01-01''])"
proof -
  have c: "fst (load_collections_data (listing_collections listing_ok)
             (snd (load_photos_data ascii_python (listing_photos listing_ok) album_world)))
           = [mk_collection 3 ''Weddings'', mk_collection 4 ''Travel'']"
    by code_simp
  have m: "filter (\<lambda>p. py_str ascii_python (collection_id p) = str_int 3)
             (fst (load_photos_data ascii_python (listing_photos listing_ok) album_world))
           = [mk_photo 1 (PInt 3) ''2024-01-01'', mk_photo 2 (PStr ''3'') ''2024-01-02'',
              mk_photo 3 (PInt 3) ''2024-01-01'']"
    by code_simp
  have d: "filter (\<lambda>p. upload_date p = ''2024-01-01'')
             [mk_photo 1 (PInt 3) ''2024-01-01'', mk_photo 2 (PStr ''3'') ''2024-01-02'',
              mk_photo 3 (PInt 3) ''2024-01-01'']
           = [mk_photo 1 (PInt 3) ''2024-01-01'', mk_photo 3 (PInt 3) ''2024-01-01'']"
    by code_simp
  have i: "c_id (mk_collection 3 ''Weddings'') = 3" "c_id (mk_collection 4 ''Travel'') = 4"
    by (simp_all add: mk_collection_def)
  from get_collection_photos_listing [where cid = 9 and env = listing_ok and w = album_world
      and py = ascii_python]
  have a: "fst (get_collection_photos ascii_python listing_ok album_world 9) = Inl CollectionNotFound"
    unfolding c by (simp add: i)
  have "3 \<in> c_id ` set [mk_collection 3 ''Weddings'', mk_collection 4 ''Travel'']"
    by (simp add: i)
  with get_collection_photos_listing [where cid = 3 and env = listing_ok and w = album_world
      and py = ascii_python]
  obtain ps k where r: "fst (get_collection_photos ascii_python listing_ok album_world 3) = Inr (ps, k, length ps)"
    and k: "find (\<lambda>c. c_id c = 3) [mk_collection 3 ''Weddings'', mk_collection 4 ''Travel''] = Some k"
    and ms: "mset ps = mset [mk_photo 1 (PInt 3) ''2024-01-01'', mk_photo 2 (PStr ''3'') ''2024-01-02'',
                            mk_photo 3 (PInt 3) ''2024-01-01'']"
    and st: "\<forall>d. filter (\<lambda>p. upload_date p = d) ps =
              filter (\<lambda>p. upload_date p = d)
                [mk_photo 1 (PInt 3) ''2024-01-01'', mk_photo 2 (PStr ''3'') ''2024-01-02'',
                 mk_photo 3 (PInt 3) ''2024-01-01'']"
    unfolding c m by blast
  from k have k': "k = mk_collection 3 ''Weddings''" by (simp add: i)
  from st d have "filter (\<lambda>p. upload_date p = ''2024-01-01'') ps =
              [mk_photo 1 (PInt 3) ''2024-01-01'', mk_photo 3 (PInt 3) ''2024-01-01'']"
    by (simp only:)
  with a r k' ms show ?thesis by blast
qed

section \<open>What a load leaves unchanged\<close>

lemma load_collections_data_frame:
  "cloudinary_configured (snd (load_collections_data env w)) = cloudinary_configured w
   \<and> assets (snd (load_collections_data env w)) = assets w
   \<and> collections_metadata (snd (load_collections_data env w)) = collections_metadata w
   \<and> local_metadata_file (snd (load_collections_data env w)) = local_metadata_file w
   \<and> (local_collections_file (snd (load_collections_data env w)) = local_collections_file w
      \<or> local_collections_file (snd (load_collections_data env w))
           = Content (fst (load_collections_data env w)))"
  by (simp add: load_collections_data_def Let_def split: cache_file.splits)

lemma load_photos_data_frame:
  "cloudinary_configured (snd (load_photos_data py env w)) = cloudinary_configured w
   \<and> assets (snd (load_photos_data py env w)) = assets w
   \<and> collections_metadata (snd (load_photos_data py env w)) = collections_metadata w
   \<and> local_collections_file (snd (load_photos_data py env w)) = local_collections_file w
   \<and> (local_metadata_file (snd (load_photos_data py env w)) = local_metadata_file w
      \<or> local_metadata_file (snd (load_photos_data py env w))
           = Content (fst (load_photos_data py env w)))"
  by (simp add: load_photos_data_def Let_def split: cache_file.splits)

section \<open>Collection lifecycle: names\<close>



section \<open>Photo lifecycle: collection reassignment\<close>

lemma load_photos_data_same:
  assumes "cloudinary_configured w' = cloudinary_configured w" "assets w' = assets w"
    "local_metadata_file w' = local_metadata_file w"
  shows "fst (load_photos_data py env w') = fst (load_photos_data py env w)
       \<and> local_metadata_file (snd (load_photos_data py env w'))
           = local_metadata_file (snd (load_photos_data py env w))"
  using assms
  by (simp add: load_photos_data_def load_photos_from_cloudinary_def Let_def
      split: cache_file.splits option.splits)

lemma reassign_photo_remote_failure:
  assumes "find (\<lambda>p. p_id p = pid) (fst (load_photos_data py (reassign_photos env) w)) = Some photo"
    and "cloudinary_public_id photo = Some public"
    and "cloudinary_configured w"
    and "\<not> explicit_ok env \<or> public \<notin> public_id ` set (assets w)"
  shows "reassign_photo py env w pid c
           = (Inl CloudinaryUpdateFailed, snd (load_photos_data py (reassign_photos env) w))"
proof -
  have "uploader_explicit (explicit_ok env) public ctx
          (snd (load_photos_data py (reassign_photos env) w)) = None" for ctx
    using assms(4) load_photos_data_frame [of py "reassign_photos env" w]
    by (auto simp: uploader_explicit_def list_ex_iff)
  with assms(1-3) load_photos_data_frame [of py "reassign_photos env" w] show ?thesis
    by (simp add: reassign_photo_def split_beta Let_def)
qed

text \<open>
  C7, as stated, fails: the target 0 is not null and references no collection, yet the
  reassignment succeeds, empties the collection id in the remote context and stores 0
  in the local cache. Nor is the float 4.7 the id of a collection, yet the reassignment
  succeeds and stores its integer part 4.
\<close>

theorem reassignment_falsy_target_counterexample:
  "map c_id (fst (load_collections_data all_ok remote_world)) = [3]
   \<and> map collection_id (fst (load_photos_data ascii_python all_ok remote_world)) = [PInt 3]
   \<and> fst (update_photo_collection ascii_python reassign_ok remote_world admin 1 (PInt 0)) = Inr ()
   \<and> map context_r
         (assets (snd (update_photo_collection ascii_python reassign_ok remote_world admin 1
                        (PInt 0))))
       = [[(''id'', ''1''), (''filename'', ''a.jpg''), (''title'', ''A''), (''description'', []),
           (''collection_id'', []), (''upload_date'', ''2024-01-01T09:00:00'')]]
   \<and> local_metadata_file
         (snd (update_photo_collection ascii_python reassign_ok remote_world admin 1 (PInt 0)))
       = Content [photo_1\<lparr>collection_id := PInt 0\<rparr>]
   \<and> map c_id (fst (load_collections_data all_ok album_world)) = [3, 4]
   \<and> map collection_id (fst (load_photos_data ascii_python all_ok album_world))
       = [PInt 3, PStr ''3'', PInt 3, PInt 4, PNone]
   \<and> fst (update_photo_collection ascii_python reassign_ok album_world admin 1
            (PFloat (Finite (47 / 10)))) = Inr ()
   \<and> map collection_id
         (fst (load_photos_data ascii_python all_ok
                (snd (update_photo_collection ascii_python reassign_ok album_world admin 1
                       (PFloat (Finite (47 / 10)))))))
       = [PInt 4, PStr ''3'', PInt 3, PInt 4, PNone]"
  by code_simp

text \<open>
  C7, amended. For an authorized request: when the target is truthy (not null, not
  false, not zero, not the empty string) and \<^verbatim>\<open>int(target)\<close> raises or is not the id of a
  loaded collection, the reassignment fails (invalid collection id, or the
  unexpected-error answer when \<^verbatim>\<open>int\<close> raises) and leaves the remote assets and the
  local photo cache unchanged.
  When the target passes the validation and the remote context update fails, the
  reassignment fails with status 500, the remote assets are unchanged and the local
  photo cache is as the photo load left it: the new collection id is not mirrored.
\<close>

theorem reassignment_failures:
  fixes py :: python and env :: reassign_env
  defines "valid \<equiv> \<lambda>w cid. case py_int py cid of
                       None \<Rightarrow> False
                     | Some n \<Rightarrow> n \<in> c_id ` set (fst (load_collections_data
                                                       (reassign_collections env) w))"
  defines "run \<equiv> \<lambda>w password pid cid. update_photo_collection py env w password pid cid"
  assumes auth: "authorized password"
  shows "(truthy cid \<and> \<not> valid w cid \<longrightarrow>
            (fst (run w password pid cid) = Inl InvalidCollectionId
               \<or> fst (run w password pid cid) = Inl Unexpected)
            \<and> assets (snd (run w password pid cid)) = assets w
            \<and> local_metadata_file (snd (run w password pid cid)) = local_metadata_file w)
       \<and> ((\<not> truthy cid \<or> valid w cid) \<and> cloudinary_configured w
            \<and> find (\<lambda>p. p_id p = pid) (fst (load_photos_data py (reassign_photos env) w)) = Some photo
            \<and> cloudinary_public_id photo = Some public
            \<and> (\<not> explicit_ok env \<or> public \<notin> public_id ` set (assets w)) \<longrightarrow>
            fst (run w password pid cid) = Inl CloudinaryUpdateFailed
            \<and> status_code CloudinaryUpdateFailed = 500
            \<and> assets (snd (run w password pid cid)) = assets w
            \<and> local_metadata_file (snd (run w password pid cid))
                = local_metadata_file (snd (load_photos_data py (reassign_photos env) w)))"
proof (intro conjI impI)
  let ?w1 = "snd (load_collections_data (reassign_collections env) w)"
  let ?cs = "fst (load_collections_data (reassign_collections env) w)"
  note fr = load_collections_data_frame [of "reassign_collections env" w]
  {
    assume a: "truthy cid \<and> \<not> valid w cid"
    have r: "run w password pid cid = (Inl InvalidCollectionId, ?w1)
           \<or> run w password pid cid = (Inl Unexpected, ?w1)"
    proof (cases "py_int py cid")
      case None
      with a auth show ?thesis
        by (simp add: run_def update_photo_collection_def split_beta)
    next
      case (Some n)
      with a have "\<not> list_ex (\<lambda>c. c_id c = n) ?cs"
        by (auto simp: valid_def list_ex_iff)
      with a auth Some show ?thesis
        by (simp add: run_def update_photo_collection_def split_beta)
    qed
    then show "fst (run w password pid cid) = Inl InvalidCollectionId
               \<or> fst (run w password pid cid) = Inl Unexpected"
      by auto
    from r fr show "assets (snd (run w password pid cid)) = assets w"
      by auto
    from r fr show "local_metadata_file (snd (run w password pid cid)) = local_metadata_file w"
      by auto
  }
  {
    assume a: "(\<not> truthy cid \<or> valid w cid) \<and> cloudinary_configured w
            \<and> find (\<lambda>p. p_id p = pid) (fst (load_photos_data py (reassign_photos env) w)) = Some photo
            \<and> cloudinary_public_id photo = Some public
            \<and> (\<not> explicit_ok env \<or> public \<notin> public_id ` set (assets w))"
    have r: "run w password pid cid
               = (Inl CloudinaryUpdateFailed, snd (load_photos_data py (reassign_photos env) w))
           \<or> run w password pid cid
               = (Inl CloudinaryUpdateFailed, snd (load_photos_data py (reassign_photos env) ?w1))"
    proof (cases "truthy cid")
      case False
      with a auth reassign_photo_remote_failure [of pid py env w photo public cid] show ?thesis
        by (simp add: run_def update_photo_collection_def)
    next
      case True
      with a obtain n where n: "py_int py cid = Some n" "list_ex (\<lambda>c. c_id c = n) ?cs"
        by (auto simp: valid_def list_ex_iff split: option.splits)
      then have ne: "?cs \<noteq> []" by auto
      from fr have same: "fst (load_photos_data py (reassign_photos env) ?w1)
                       = fst (load_photos_data py (reassign_photos env) w)"
        using load_photos_data_same [of ?w1 w py "reassign_photos env"] by simp
      have "reassign_photo py env ?w1 pid (PInt n)
              = (Inl CloudinaryUpdateFailed, snd (load_photos_data py (reassign_photos env) ?w1))"
        using a fr same by (intro reassign_photo_remote_failure [of pid py env ?w1 photo public]) auto
      with True auth n ne show ?thesis
        by (simp add: run_def update_photo_collection_def split_beta)
    qed
    note fp = load_photos_data_frame [of py "reassign_photos env" w]
      load_photos_data_frame [of py "reassign_photos env" ?w1]
    from r show "fst (run w password pid cid) = Inl CloudinaryUpdateFailed"
      by auto
    from r fr fp show "assets (snd (run w password pid cid)) = assets w"
      by auto
    from fr have "local_metadata_file (snd (load_photos_data py (reassign_photos env) ?w1))
                = local_metadata_file (snd (load_photos_data py (reassign_photos env) w))"
      using load_photos_data_same [of ?w1 w py "reassign_photos env"] by simp
    with r show "local_metadata_file (snd (run w password pid cid))
                = local_metadata_file (snd (load_photos_data py (reassign_photos env) w))"
      by auto
  }
qed simp

text \<open>
  On the configured store with collection 3: the targets 9 and 9.5 are refused and
  nothing changes; the target 3.7 passes the validation as 3, and with the remote update
  failing the answer is the 500, and the cache holds the loaded photo with its old
  collection id.
\<close>

theorem reassignment_failures_witness:
  "(fst (update_photo_collection ascii_python reassign_ok remote_world admin 1 (PInt 9))
      = Inl InvalidCollectionId
    \<or> fst (update_photo_collection ascii_python reassign_ok remote_world admin 1 (PInt 9))
      = Inl Unexpected)
   \<and> assets (snd (update_photo_collection ascii_python reassign_ok remote_world admin 1 (PInt 9)))
       = [asset_1]
   \<and> local_metadata_file
         (snd (update_photo_collection ascii_python reassign_ok remote_world admin 1 (PInt 9)))
       = Absent
   \<and> assets (snd (update_photo_collection ascii_python reassign_ok remote_world admin 1
                    (PFloat (Finite (19 / 2)))))
       = [asset_1]
   \<and> fst (update_photo_collection ascii_python explicit_down remote_world admin 1
            (PFloat (Finite (37 / 10))))
       = Inl CloudinaryUpdateFailed
   \<and> assets (snd (update_photo_collection ascii_python explicit_down remote_world admin 1
                    (PFloat (Finite (37 / 10)))))
       = [asset_1]
   \<and> local_metadata_file
         (snd (update_photo_collection ascii_python explicit_down remote_world admin 1
                (PFloat (Finite (37 / 10)))))
       = Content [photo_1]"
proof -
  have a: "authorized admin"
    by (simp add: authorized_def admin_def)
  have e: "reassign_collections reassign_ok = all_ok" "reassign_photos reassign_ok = all_ok"
    "reassign_collections explicit_down = all_ok" "reassign_photos explicit_down = all_ok"
    "\<not> explicit_ok explicit_down"
    by (simp_all add: reassign_ok_def explicit_down_def)
  have c: "fst (load_collections_data all_ok remote_world) = [mk_collection 3 ''Weddings'']"
    by code_simp
  have i: "c_id (mk_collection 3 ''Weddings'') = 3"
    by (simp add: mk_collection_def)
  have f: "py_int ascii_python (PFloat (Finite (19 / 2))) = Some 9"
    "py_int ascii_python (PFloat (Finite (37 / 10))) = Some 3"
    "truthy (PFloat (Finite (19 / 2)))" "truthy (PFloat (Finite (37 / 10)))"
    by code_simp+
  have p: "find (\<lambda>p. p_id p = 1) (fst (load_photos_data ascii_python all_ok remote_world))
             = Some photo_1"
    "local_metadata_file (snd (load_photos_data ascii_python all_ok remote_world))
       = Content [photo_1]"
    by code_simp+
  have k: "cloudinary_public_id photo_1 = Some ''georges_photo_gallery/photo_1_ab12.jpg''"
    by (simp add: photo_1_def)
  have r: "cloudinary_configured remote_world" "assets remote_world = [asset_1]"
    "local_metadata_file remote_world = Absent"
    by (simp_all add: remote_world_def)
  from reassignment_failures [OF a, where py = ascii_python and env = reassign_ok
      and w = remote_world and pid = 1 and cid = "PInt 9"]
  have one: "(fst (update_photo_collection ascii_python reassign_ok remote_world admin 1 (PInt 9))
      = Inl InvalidCollectionId
    \<or> fst (update_photo_collection ascii_python reassign_ok remote_world admin 1 (PInt 9))
      = Inl Unexpected)
   \<and> assets (snd (update_photo_collection ascii_python reassign_ok remote_world admin 1 (PInt 9)))
       = [asset_1]
   \<and> local_metadata_file
         (snd (update_photo_collection ascii_python reassign_ok remote_world admin 1 (PInt 9)))
       = Absent"
    unfolding e c by (simp add: i r)
  from reassignment_failures [OF a, where py = ascii_python and env = reassign_ok
      and w = remote_world and pid = 1 and cid = "PFloat (Finite (19 / 2))"]
  have half: "assets (snd (update_photo_collection ascii_python reassign_ok remote_world admin 1
                    (PFloat (Finite (19 / 2)))))
       = [asset_1]"
    unfolding e c f by (simp add: i r f)
  from reassignment_failures [OF a, where py = ascii_python and env = explicit_down
      and w = remote_world and pid = 1 and cid = "PFloat (Finite (37 / 10))" and photo = photo_1
      and public = "''georges_photo_gallery/photo_1_ab12.jpg''"]
  have two: "fst (update_photo_collection ascii_python explicit_down remote_world admin 1
            (PFloat (Finite (37 / 10))))
       = Inl CloudinaryUpdateFailed
   \<and> assets (snd (update_photo_collection ascii_python explicit_down remote_world admin 1
                    (PFloat (Finite (37 / 10)))))
       = [asset_1]
   \<and> local_metadata_file
         (snd (update_photo_collection ascii_python explicit_down remote_world admin 1
                (PFloat (Finite (37 / 10)))))
       = Content [photo_1]"
    unfolding e c p f by (simp add: i k e r f)
  from one half two show ?thesis by simp
qed

section \<open>Photo lifecycle: upload\<close>

lemma get_next_photo_id_world:
  "snd (get_next_photo_id py env w) = snd (load_photos_data py env w)"
  by (simp add: get_next_photo_id_def split_beta split: list.splits)



lemma store_photo_success:
  assumes "store_photo py env w form cid = (Inr p, w')"
  shows "\<exists>name r. photo_filename form = Some name \<and> name \<noteq> []
           \<and> r = \<lparr>public_id = ''georges_photo_gallery'' @ ''/'' @ (''photo_''
                      @ str_int (fst (get_next_photo_id py (upload_photos env) w)) @ ''_''
                      @ unique_filename py (uuid_hex env) name),
                    secure_url = result_url env,
                    created_at = Some (result_created_at env),
                    context_r =
                      [(''id'', str_int (fst (get_next_photo_id py (upload_photos env) w))),
                       (''filename'', name),
                       (''title'', case form_title form of None \<Rightarrow> ''Untitled'' | Some t \<Rightarrow> t),
                       (''description'', case form_description form of None \<Rightarrow> [] | Some d \<Rightarrow> d),
                       (''collection_id'',
                          case cid of None \<Rightarrow> [] | Some n \<Rightarrow> if n \<noteq> 0 then str_int n else []),
                       (''upload_date'', now_context env)]\<rparr>
           \<and> p = \<lparr>p_id = fst (get_next_photo_id py (upload_photos env) w),
                    filename = name,
                    title = (case form_title form of None \<Rightarrow> ''Untitled'' | Some t \<Rightarrow> t),
                    description = (case form_description form of None \<Rightarrow> [] | Some d \<Rightarrow> d),
                    collection_id = (case cid of None \<Rightarrow> PNone | Some n \<Rightarrow> PInt n),
                    cloudinary_url = result_url env,
                    cloudinary_public_id = Some (public_id r),
                    image_url = result_url env,
                    upload_date = now_record env,
                    storage_type = ''cloudinary''\<rparr>
           \<and> w' = (snd (load_photos_data py (upload_photos env) w))
                    \<lparr>assets := filter (\<lambda>a. public_id a \<noteq> public_id r)
                                 (assets (snd (load_photos_data py (upload_photos env) w))) @ [r]\<rparr>"
  using assms get_next_photo_id_world [of py "upload_photos env" w]
  by (auto simp: store_photo_def uploader_upload_def split_beta Let_def
      split: option.splits if_splits)

lemma upload_photo_success:
  assumes "upload_photo py env w password form = (Inr p, w')"
  shows "\<exists>w1 cid. store_photo py env w1 form cid = (Inr p, w')
           \<and> cloudinary_configured w1 = cloudinary_configured w
           \<and> assets w1 = assets w
           \<and> local_metadata_file w1 = local_metadata_file w"
  using assms load_collections_data_frame [of "upload_collections env" w]
  by (auto simp: upload_photo_def split_beta Let_def split: option.splits if_splits)

text \<open>
  C8, as stated, fails on the title: a title submitted as the empty string is kept, the
  created record's title is empty and not \<^verbatim>\<open>Untitled\<close>.
\<close>

theorem upload_empty_title_counterexample:
  "form_title empty_title_form = Some []
   \<and> fst (upload_photo ascii_python upload_ok_env remote_world admin empty_title_form) = Inr (uploaded [])
   \<and> title (uploaded []) = []"
  by code_simp

text \<open>
  C8, amended. For every upload that creates a photo record: the title is
  \<^verbatim>\<open>Untitled\<close> when the form has no title field, and the submitted title, also an empty
  one, otherwise; the asset is stored under the name made of the photo id, the random
  token and the extension, and the extension is \<^verbatim>\<open>jpg\<close> when the original filename
  contains no dot.
\<close>

theorem upload_defaults:
  assumes "upload_photo py env w password form = (Inr p, w')"
  shows "(form_title form = None \<longrightarrow> title p = ''Untitled'')
       \<and> (\<forall>t. form_title form = Some t \<longrightarrow> title p = t)
       \<and> (\<exists>name. photo_filename form = Some name \<and> name \<noteq> []
             \<and> cloudinary_public_id p =
                 Some (''georges_photo_gallery/photo_'' @ str_int (p_id p) @ ''_''
                       @ uuid_hex env @ ''.'' @ file_extension py name)
             \<and> (CHR ''.'' \<notin> set name \<longrightarrow> file_extension py name = ''jpg''))"
proof -
  from upload_photo_success [OF assms] obtain w1 cid
    where "store_photo py env w1 form cid = (Inr p, w')" by blast
  from store_photo_success [OF this] show ?thesis
    by (auto simp: unique_filename_def file_extension_def)
qed

text \<open>
  Without a title field the record is titled \<^verbatim>\<open>Untitled\<close>, and the file \<^verbatim>\<open>sunset\<close>
  is stored with the extension \<^verbatim>\<open>jpg\<close>.
\<close>

theorem upload_defaults_witness:
  "fst (upload_photo ascii_python upload_ok_env remote_world admin no_title_form) = Inr (uploaded ''Untitled'')
   \<and> title (uploaded ''Untitled'') = ''Untitled''
   \<and> cloudinary_public_id (uploaded ''Untitled'')
       = Some (''georges_photo_gallery/photo_'' @ str_int (p_id (uploaded ''Untitled'')) @ ''_''
               @ uuid_hex upload_ok_env @ ''.'' @ ''jpg'')"
proof -
  have u1: "fst (upload_photo ascii_python upload_ok_env remote_world admin no_title_form)
              = Inr (uploaded ''Untitled'')"
    by code_simp
  then have u: "upload_photo ascii_python upload_ok_env remote_world admin no_title_form =
             (Inr (uploaded ''Untitled''),
              snd (upload_photo ascii_python upload_ok_env remote_world admin no_title_form))"
    by (simp add: prod_eq_iff)
  have f: "form_title no_title_form = None" "photo_filename no_title_form = Some ''sunset''"
    by (simp_all add: no_title_form_def)
  have d: "CHR ''.'' \<notin> set ''sunset''"
    by simp
  from upload_defaults [OF u] f d u1 show ?thesis
    by auto
qed




section \<open>Photo lifecycle: delete\<close>

text \<open>
  C9, as stated, fails in three ways. When the remote deletion fails the delete still
  succeeds, the next load takes the photo from the remote listing again, and a second
  delete succeeds instead of answering not-found. When the local write fails, the cache
  written by the delete's own load still holds the photo, and the next load, served
  from the cache, returns it. When the assets carry no id the load numbers them by
  position: after photo 1 is deleted the remaining asset is photo 1, and a second
  delete of 1 succeeds.
\<close>

theorem delete_remote_failure_counterexample:
  "fst (delete_photo ascii_python destroy_down remote_world admin 1) = Inr ()
   \<and> fst (load_photos_data ascii_python all_ok
            (snd (delete_photo ascii_python destroy_down remote_world admin 1)))
       = [photo_1]
   \<and> p_id photo_1 = 1
   \<and> fst (delete_photo ascii_python destroy_down
            (snd (delete_photo ascii_python destroy_down remote_world admin 1)) admin 1)
       = Inr ()
   \<and> fst (delete_photo ascii_python persist_down remote_world admin 1) = Inr ()
   \<and> fst (load_photos_data ascii_python all_ok
            (snd (delete_photo ascii_python persist_down remote_world admin 1)))
       = [photo_1]
   \<and> fst (delete_photo ascii_python persist_down
            (snd (delete_photo ascii_python persist_down remote_world admin 1)) admin 1)
       = Inr ()
   \<and> map p_id (fst (load_photos_data ascii_python all_ok bare_world)) = [1, 2]
   \<and> fst (delete_photo ascii_python delete_ok bare_world admin 1) = Inr ()
   \<and> assets (snd (delete_photo ascii_python delete_ok bare_world admin 1)) = [bare_asset ''b'']
   \<and> map p_id (fst (load_photos_data ascii_python all_ok
                      (snd (delete_photo ascii_python delete_ok bare_world admin 1)))) = [1]
   \<and> fst (delete_photo ascii_python delete_ok
            (snd (delete_photo ascii_python delete_ok bare_world admin 1)) admin 1)
       = Inr ()"
  by code_simp

lemma delete_photo_found:
  assumes "authorized password"
    and "find (\<lambda>p. p_id p = pid) (fst (load_photos_data py (delete_photos env) w)) = Some photo"
  shows "fst (delete_photo py env w password pid) = Inr ()"
    and "persist_ok env \<Longrightarrow>
           local_metadata_file (snd (delete_photo py env w password pid))
             = Content (filter (\<lambda>p. p_id p \<noteq> pid)
                          (fst (load_photos_data py (delete_photos env) w)))"
    and "\<not> destroy_ok env \<Longrightarrow> assets (snd (delete_photo py env w password pid)) = assets w"
    and "destroy_ok env \<Longrightarrow> cloudinary_configured w \<Longrightarrow> cloudinary_public_id photo = Some k \<Longrightarrow>
           assets (snd (delete_photo py env w password pid))
             = filter (\<lambda>r. public_id r \<noteq> k) (assets w)"
    and "cloudinary_configured (snd (delete_photo py env w password pid)) = cloudinary_configured w"
  using assms load_photos_data_frame [of py "delete_photos env" w]
  by (auto simp: delete_photo_def uploader_destroy_def split_beta Let_def split: option.splits)

lemma delete_photo_missing:
  assumes "authorized password"
    and "pid \<notin> p_id ` set (fst (load_photos_data py (delete_photos env) w))"
  shows "fst (delete_photo py env w password pid) = Inl PhotoNotFound"
proof -
  from assms(2)
  have "find (\<lambda>p. p_id p = pid) (fst (load_photos_data py (delete_photos env) w)) = None"
    by (auto simp: find_None_iff)
  with assms(1) show ?thesis
    by (simp add: delete_photo_def split_beta)
qed

lemma photo_of_resource_id:
  assumes "photo_of_resource py n r = Some p" and "map_of (context_r r) ''id'' = Some s"
  shows "int_str py s = Some (p_id p)"
  using assms by (auto simp: photo_of_resource_def Let_def split: option.splits)

lemma build_photos_lacks:
  assumes "build_photos py rs acc = Some ps"
    and "\<forall>r \<in> set rs. \<exists>s. map_of (context_r r) ''id'' = Some s \<and> int_str py s \<noteq> Some pid"
    and "pid \<notin> p_id ` set acc"
  shows "pid \<notin> p_id ` set ps"
  using assms
proof (induction rs arbitrary: acc)
  case Nil
  then show ?case by simp
next
  case (Cons r rs)
  from Cons.prems(1) obtain p where p: "photo_of_resource py (length acc) r = Some p"
    and rest: "build_photos py rs (acc @ [p]) = Some ps"
    by (auto split: option.splits)
  from Cons.prems(2) obtain s where s: "map_of (context_r r) ''id'' = Some s"
    "int_str py s \<noteq> Some pid"
    by auto
  with photo_of_resource_id [OF p s(1)] have "p_id p \<noteq> pid" by auto
  with Cons.prems(3) have "pid \<notin> p_id ` set (acc @ [p])" by auto
  with Cons.IH [OF rest] Cons.prems(2) show ?case by simp
qed

lemma remote_listing_lacks:
  assumes "\<forall>r \<in> set (assets w). \<exists>s. map_of (context_r r) ''id'' = Some s \<and> int_str py s \<noteq> Some pid"
  shows "pid \<notin> p_id ` set (load_photos_from_cloudinary py env w)"
proof (cases "build_photos py (take 500 (assets w)) []")
  case None
  then show ?thesis by (simp add: load_photos_from_cloudinary_def)
next
  case (Some ps)
  from assms have "\<forall>r \<in> set (take 500 (assets w)).
      \<exists>s. map_of (context_r r) ''id'' = Some s \<and> int_str py s \<noteq> Some pid"
    by (meson in_set_takeD)
  with build_photos_lacks [OF Some] have "pid \<notin> p_id ` set ps" by simp
  with Some show ?thesis by (simp add: load_photos_from_cloudinary_def)
qed

text \<open>
  C9, amended. For an authorized delete of an id that the load finds: the delete
  succeeds whatever the outcomes of the remote deletion and of the local write; a failed
  remote deletion leaves the remote assets as they were, a successful one removes the
  asset of the photo; when the local write succeeds the cache holds the loaded list
  without the photos of that id. The following load has no photo of that id, and a
  second delete answers not-found (404), in two cases: the load is served from the cache
  (remote store not configured, query failing or listing empty) and the local write of
  the delete succeeded; or the load is served from the remote listing, the remote
  deletion succeeded, and every other remote asset carries an id in its context that is
  not the deleted one.
\<close>

theorem delete_photo_best_effort:
  fixes py :: python and env :: delete_env
  defines "loaded \<equiv> \<lambda>w. fst (load_photos_data py (delete_photos env) w)"
  defines "after \<equiv> \<lambda>w password pid. snd (delete_photo py env w password pid)"
  assumes auth: "authorized password"
    and found: "find (\<lambda>p. p_id p = pid) (loaded w) = Some photo"
  shows "fst (delete_photo py env w password pid) = Inr ()
       \<and> (\<not> destroy_ok env \<longrightarrow> assets (after w password pid) = assets w)
       \<and> (destroy_ok env \<and> cloudinary_configured w \<and> cloudinary_public_id photo = Some k \<longrightarrow>
            assets (after w password pid) = filter (\<lambda>r. public_id r \<noteq> k) (assets w))
       \<and> (persist_ok env \<longrightarrow>
            local_metadata_file (after w password pid)
              = Content (filter (\<lambda>p. p_id p \<noteq> pid) (loaded w)))
       \<and> ((load_photos_from_cloudinary py (delete_photos env') (after w password pid) = []
              \<and> persist_ok env
            \<or> load_photos_from_cloudinary py (delete_photos env') (after w password pid) \<noteq> []
              \<and> destroy_ok env \<and> cloudinary_public_id photo = Some k
              \<and> (\<forall>r \<in> set (assets w). public_id r \<noteq> k \<longrightarrow>
                    (\<exists>s. map_of (context_r r) ''id'' = Some s \<and> int_str py s \<noteq> Some pid)))
            \<longrightarrow>
            pid \<notin> p_id ` set (fst (load_photos_data py (delete_photos env') (after w password pid)))
            \<and> fst (delete_photo py env' (after w password pid) password pid) = Inl PhotoNotFound
            \<and> status_code PhotoNotFound = 404)"
proof -
  let ?w' = "after w password pid"
  let ?next = "fst (load_photos_data py (delete_photos env') ?w')"
  note d = delete_photo_found [OF auth found [unfolded loaded_def]]
  have cached: "pid \<notin> p_id ` set ?next"
    if p: "persist_ok env"
      and e: "load_photos_from_cloudinary py (delete_photos env') ?w' = []"
  proof -
    have "?next = filter (\<lambda>p. p_id p \<noteq> pid) (loaded w)"
      using d(2) [OF p] e by (simp add: load_photos_data_def after_def loaded_def)
    then show ?thesis by auto
  qed
  have listed: "pid \<notin> p_id ` set ?next"
    if ne: "load_photos_from_cloudinary py (delete_photos env') ?w' \<noteq> []"
      and ok: "destroy_ok env" and k: "cloudinary_public_id photo = Some k"
      and others: "\<forall>r \<in> set (assets w). public_id r \<noteq> k \<longrightarrow>
                    (\<exists>s. map_of (context_r r) ''id'' = Some s \<and> int_str py s \<noteq> Some pid)"
  proof -
    from ne have "cloudinary_configured ?w'"
      by (auto simp: load_photos_from_cloudinary_def split: if_splits)
    with d(5) have c: "cloudinary_configured w"
      by (simp add: after_def)
    from d(4) [OF ok c k] have "assets ?w' = filter (\<lambda>r. public_id r \<noteq> k) (assets w)"
      by (simp add: after_def)
    with others have "\<forall>r \<in> set (assets ?w').
        \<exists>s. map_of (context_r r) ''id'' = Some s \<and> int_str py s \<noteq> Some pid"
      by simp
    from remote_listing_lacks [OF this]
    have "pid \<notin> p_id ` set (load_photos_from_cloudinary py (delete_photos env') ?w')" .
    moreover from ne have "?next = load_photos_from_cloudinary py (delete_photos env') ?w'"
      by (simp add: load_photos_data_def Let_def)
    ultimately show ?thesis by simp
  qed
  have again: "fst (delete_photo py env' ?w' password pid) = Inl PhotoNotFound"
    if "pid \<notin> p_id ` set ?next"
    using delete_photo_missing [OF auth that] .
  from d(1,2,3,4) cached listed again show ?thesis
    unfolding after_def loaded_def by (intro conjI impI) auto
qed

text \<open>
  On the configured store with one asset: with the remote deletion failing the delete
  succeeds, the asset stays and the cache is emptied, and a second delete with the
  remote query down answers not-found. On the store with two assets: the deletion of
  photo 1 succeeds, the next load is the remote listing of photo 2 alone, and a
  second delete answers not-found.
\<close>

theorem delete_photo_best_effort_witness:
  "fst (delete_photo ascii_python destroy_down remote_world admin 1) = Inr ()
   \<and> assets (snd (delete_photo ascii_python destroy_down remote_world admin 1)) = [asset_1]
   \<and> local_metadata_file (snd (delete_photo ascii_python destroy_down remote_world admin 1))
       = Content []
   \<and> fst (delete_photo ascii_python remote_down
            (snd (delete_photo ascii_python destroy_down remote_world admin 1)) admin 1)
       = Inl PhotoNotFound
   \<and> assets (snd (delete_photo ascii_python delete_ok remote_two admin 1)) = [asset_2]
   \<and> map p_id (fst (load_photos_data ascii_python all_ok
                      (snd (delete_photo ascii_python delete_ok remote_two admin 1)))) = [2]
   \<and> 1 \<notin> p_id ` set (fst (load_photos_data ascii_python all_ok
                             (snd (delete_photo ascii_python delete_ok remote_two admin 1))))
   \<and> fst (delete_photo ascii_python delete_ok
            (snd (delete_photo ascii_python delete_ok remote_two admin 1)) admin 1)
       = Inl PhotoNotFound"
proof -
  have a: "authorized admin"
    by (simp add: authorized_def admin_def)
  have l: "find (\<lambda>p. p_id p = 1)
             (fst (load_photos_data ascii_python (delete_photos destroy_down) remote_world))
           = Some photo_1"
    "find (\<lambda>p. p_id p = 1)
             (fst (load_photos_data ascii_python (delete_photos delete_ok) remote_two))
           = Some photo_1"
    "filter (\<lambda>p. p_id p \<noteq> 1)
       (fst (load_photos_data ascii_python (delete_photos destroy_down) remote_world)) = []"
    by code_simp+
  have k: "cloudinary_public_id photo_1 = Some ''georges_photo_gallery/photo_1_ab12.jpg''"
    by (simp add: photo_1_def)
  have e: "\<not> destroy_ok destroy_down" "persist_ok destroy_down"
    "destroy_ok delete_ok" "persist_ok delete_ok" "delete_photos delete_ok = all_ok"
    by (simp_all add: destroy_down_def delete_ok_def)
  have r: "cloudinary_configured remote_world" "assets remote_world = [asset_1]"
    "cloudinary_configured remote_two" "assets remote_two = [asset_1, asset_2]"
    by (simp_all add: remote_world_def remote_two_def)
  have g: "public_id asset_1 = ''georges_photo_gallery/photo_1_ab12.jpg''"
    "public_id asset_2 = ''georges_photo_gallery/photo_2_cd34.png''"
    "map_of (context_r asset_2) ''id'' = Some ''2''"
    by (simp_all add: asset_1_def asset_2_def)
  have i: "int_str ascii_python ''2'' = Some 2"
    by code_simp
  have q: "load_photos_from_cloudinary ascii_python (delete_photos remote_down)
             (snd (delete_photo ascii_python destroy_down remote_world admin 1)) = []"
    "load_photos_from_cloudinary ascii_python (delete_photos delete_ok)
             (snd (delete_photo ascii_python delete_ok remote_two admin 1)) \<noteq> []"
    "map p_id (fst (load_photos_data ascii_python all_ok
                      (snd (delete_photo ascii_python delete_ok remote_two admin 1)))) = [2]"
    by code_simp+
  from delete_photo_best_effort [OF a l(1), where env' = remote_down]
  have one: "fst (delete_photo ascii_python destroy_down remote_world admin 1) = Inr ()
   \<and> assets (snd (delete_photo ascii_python destroy_down remote_world admin 1)) = [asset_1]
   \<and> local_metadata_file (snd (delete_photo ascii_python destroy_down remote_world admin 1))
       = Content []
   \<and> fst (delete_photo ascii_python remote_down
            (snd (delete_photo ascii_python destroy_down remote_world admin 1)) admin 1)
       = Inl PhotoNotFound"
    unfolding l by (simp add: e r q)
  from delete_photo_best_effort [OF a l(2), where env' = delete_ok
      and k = "''georges_photo_gallery/photo_1_ab12.jpg''"]
  have two: "assets (snd (delete_photo ascii_python delete_ok remote_two admin 1)) = [asset_2]
   \<and> 1 \<notin> p_id ` set (fst (load_photos_data ascii_python all_ok
                             (snd (delete_photo ascii_python delete_ok remote_two admin 1))))
   \<and> fst (delete_photo ascii_python delete_ok
            (snd (delete_photo ascii_python delete_ok remote_two admin 1)) admin 1)
       = Inl PhotoNotFound"
    by (simp add: e r q k g i)
  from one two q(3) show ?thesis by simp
qed

end
